theory Spec2Isabelle
  imports Complex_Main
begin

section \<open>The monitoring dashboard of \<^verbatim>\<open>app.py\<close>\<close>

text \<open>
  The program generates one month of hourly synthetic sensor readings
  (\<^verbatim>\<open>generate_fake_data\<close>) and derives from the machine-learning vibration channel a
  per-sample flag column, an alarm banner and two metrics
  (\<^verbatim>\<open>create_page_layout\<close>).

  Readings are Python floats. They are modelled as \<^typ>\<open>real\<close>: the decimal constants
  of the source denote the rationals they are written as, comparison is exact, and
  addition and subtraction do not round. A double differs from the real it stands
  for by a rounding error far below the two decimals at which the page prints a
  reading, so what the page shows is stated on the printed text. Time stamps are
  counted in hours since 2023-01-01 00:00.
\<close>

subsection \<open>Threshold limits\<close>

definition TEMP_LIMIT :: real where
  "TEMP_LIMIT = 80"

definition VIB_ISO_LIMIT :: real where
  "VIB_ISO_LIMIT = 7.1"

definition VIB_ML_LIMIT :: real where
  "VIB_ML_LIMIT = 5.0"

subsection \<open>Errors the library calls can raise\<close>

datatype error = ValueError | IndexError

subsection \<open>The random source\<close>

text \<open>
  \<^verbatim>\<open>np.random\<close> is a global generator that every call advances. The state is made
  explicit: a stream of standard normal draws, a stream of raw uniform draws (numpy's
  \<^verbatim>\<open>random_sample\<close>, each in the half-open interval from 0 to 1) and the number of
  draws already taken from each.
\<close>

record rng =
  normals :: "nat \<Rightarrow> real"
  uniforms :: "nat \<Rightarrow> real"
  n_pos :: nat
  u_pos :: nat

definition standard_normal :: "nat \<Rightarrow> rng \<Rightarrow> real list \<times> rng" where
  "standard_normal n g =
     (map (\<lambda>k. normals g (n_pos g + k)) [0..<n], g\<lparr>n_pos := n_pos g + n\<rparr>)"

definition random_sample :: "nat \<Rightarrow> rng \<Rightarrow> real list \<times> rng" where
  "random_sample n g =
     (map (\<lambda>k. uniforms g (u_pos g + k)) [0..<n], g\<lparr>u_pos := u_pos g + n\<rparr>)"

text \<open>\<^verbatim>\<open>np.random.normal(loc, scale, size)\<close>: \<open>loc + scale * z\<close> for standard normal \<open>z\<close>.\<close>

definition random_normal :: "real \<Rightarrow> real \<Rightarrow> nat \<Rightarrow> rng \<Rightarrow> real list \<times> rng" where
  "random_normal loc scale n g =
     (case standard_normal n g of (zs, g') \<Rightarrow> (map (\<lambda>z. loc + scale * z) zs, g'))"

text \<open>\<^verbatim>\<open>np.random.uniform(low, high, size)\<close>: \<open>low + (high - low) * u\<close> for a raw draw \<open>u\<close>.\<close>

definition random_uniform :: "real \<Rightarrow> real \<Rightarrow> nat \<Rightarrow> rng \<Rightarrow> real list \<times> rng" where
  "random_uniform low high n g =
     (case random_sample n g of (us, g') \<Rightarrow> (map (\<lambda>u. low + (high - low) * u) us, g'))"

text \<open>The raw uniform draws that the next \<open>n\<close>-sample call will consume lie in \<open>[0, 1)\<close>.\<close>

definition unit_draw :: "real \<Rightarrow> bool" where
  "unit_draw u = (0 \<le> u \<and> u < 1)"

definition next_uniforms_ok :: "nat \<Rightarrow> rng \<Rightarrow> bool" where
  "next_uniforms_ok n g = list_all unit_draw (fst (random_sample n g))"

subsection \<open>Array operations of numpy and pandas\<close>

text \<open>
  \<^verbatim>\<open>pd.date_range(start, end, freq='H')\<close>: the hourly stamps from \<open>start\<close> up to
  and including \<open>end\<close>; both bounds are midnights here.
\<close>

definition midnight_jan_2023 :: "nat \<Rightarrow> nat" where
  "midnight_jan_2023 day = (day - 1) * 24"

definition date_range :: "nat \<Rightarrow> nat \<Rightarrow> nat list" where
  "date_range start stop = (if stop < start then [] else [start..<Suc stop])"

definition arange :: "nat \<Rightarrow> real list" where
  "arange n = map real [0..<n]"

definition ones :: "nat \<Rightarrow> real list" where
  "ones n = replicate n 1"

definition np_clip :: "real list \<Rightarrow> real \<Rightarrow> real \<Rightarrow> real list" where
  "np_clip xs a_min a_max = map (\<lambda>x. min (max x a_min) a_max) xs"

text \<open>The slices \<^verbatim>\<open>a[-k:]\<close> and \<^verbatim>\<open>a[:-k]\<close> for \<open>k > 0\<close>; both are capped to the array.\<close>

definition slice_last :: "nat \<Rightarrow> 'a list \<Rightarrow> 'a list" where
  "slice_last k xs = drop (length xs - k) xs"

definition slice_but_last :: "nat \<Rightarrow> 'a list \<Rightarrow> 'a list" where
  "slice_but_last k xs = take (length xs - k) xs"

text \<open>
  \<^verbatim>\<open>a[-k:] = vs\<close>: numpy broadcasts a one-element \<open>vs\<close> and otherwise wants \<open>vs\<close>
  to have the length of the slice, raising \<^verbatim>\<open>ValueError\<close> if not.
\<close>

definition assign_last :: "nat \<Rightarrow> 'a list \<Rightarrow> 'a list \<Rightarrow> error + 'a list" where
  "assign_last k xs vs =
     (let m = length (slice_last k xs) in
      if length vs = m then Inr (slice_but_last k xs @ vs)
      else if length vs = 1 then Inr (slice_but_last k xs @ replicate m (hd vs))
      else Inl ValueError)"

text \<open>\<^verbatim>\<open>a[:-k] = vs\<close>, likewise.\<close>

definition assign_but_last :: "nat \<Rightarrow> 'a list \<Rightarrow> 'a list \<Rightarrow> error + 'a list" where
  "assign_but_last k xs vs =
     (let m = length (slice_but_last k xs) in
      if length vs = m then Inr (vs @ slice_last k xs)
      else if length vs = 1 then Inr (replicate m (hd vs) @ slice_last k xs)
      else Inl ValueError)"

text \<open>\<^verbatim>\<open>Series.any()\<close>, \<^verbatim>\<open>Series.sum()\<close> on booleans, \<^verbatim>\<open>Series.iloc[-1]\<close>.\<close>

definition series_any :: "bool list \<Rightarrow> bool" where
  "series_any bs = list_ex (\<lambda>b. b) bs"

definition series_sum :: "bool list \<Rightarrow> nat" where
  "series_sum bs = length (filter (\<lambda>b. b) bs)"

definition iloc_last :: "'a list \<Rightarrow> error + 'a" where
  "iloc_last xs = (if xs = [] then Inl IndexError else Inr (last xs))"

text \<open>\<^verbatim>\<open>df[mask][col]\<close>: the entries of a column at the rows where the mask holds.\<close>

definition boolean_index :: "bool list \<Rightarrow> 'a list \<Rightarrow> 'a list" where
  "boolean_index msk col = map snd (filter fst (zip msk col))"

subsection \<open>Formatting\<close>

text \<open>\<^verbatim>\<open>str(n)\<close> for a count: its decimal digits.\<close>

definition digit_char :: "nat \<Rightarrow> char" where
  "digit_char d = ''0123456789'' ! d"

fun decimal :: "nat \<Rightarrow> string" where
  "decimal n = (if n < 10 then [digit_char n] else decimal (n div 10) @ [digit_char (n mod 10)])"

text \<open>
  The format \<^verbatim>\<open>:.2f\<close>: the sign, then the magnitude rounded to hundredths, a tie
  going to the even neighbour, with two digits after the point.
\<close>

definition round_half_even :: "real \<Rightarrow> int" where
  "round_half_even x =
     (let f = \<lfloor>x\<rfloor>; r = x - of_int f
      in if r < 1 / 2 then f else if 1 / 2 < r then f + 1 else if even f then f else f + 1)"

definition format_2f :: "real \<Rightarrow> string" where
  "format_2f x =
     (let h = nat (round_half_even (\<bar>x\<bar> * 100))
      in (if x < 0 then ''-'' else '''')
         @ decimal (h div 100) @ ''.'' @ [digit_char (h div 10 mod 10), digit_char (h mod 10)])"

subsection \<open>The data frame\<close>

record dataframe =
  date :: "nat list"
  temperature :: "real list"
  vib_iso :: "real list"
  vib_ml :: "real list"
  above_threshold :: "bool list option"

subsection \<open>\<^verbatim>\<open>generate_fake_data\<close>\<close>

definition generate_fake_data :: "rng \<Rightarrow> error + (dataframe \<times> rng)" where
  "generate_fake_data g0 =
     (let dates = date_range (midnight_jan_2023 1) (midnight_jan_2023 31);
          n = length dates;
          temp_base = map (\<lambda>i. 45 + 5 * sin (i * 2 * pi / 24)) (arange n);
          (noise_t, g1) = random_normal 0 2 n g0;
          temp = map2 (+) temp_base noise_t;
          vib_iso_base = map (\<lambda>x. 4.5 * x) (ones n);
          (noise_iso, g2) = random_normal 0 0.3 n g1;
          vib_iso1 = np_clip (map2 (+) vib_iso_base noise_iso) 3.5 6.5;
          vib_ml_base = map (\<lambda>x. 3.8 * x) (ones n);
          (noise_ml, g3) = random_normal 0 0.25 n g2;
          vib_ml1 = map2 (+) vib_ml_base noise_ml;
          (excess, g4) = random_uniform 0.2 0.8 10 g3
      in case assign_last 10 vib_ml1 (map (\<lambda>u. VIB_ML_LIMIT + u) excess) of
           Inl e \<Rightarrow> Inl e
         | Inr vib_ml2 \<Rightarrow>
             (case assign_but_last 10 vib_ml2 (np_clip (slice_but_last 10 vib_ml2) 3.0 4.8) of
                Inl e \<Rightarrow> Inl e
              | Inr vib_ml3 \<Rightarrow>
                  Inr (\<lparr>date = dates, temperature = temp, vib_iso = vib_iso1,
                        vib_ml = vib_ml3, above_threshold = None\<rparr>, g4)))"

text \<open>
  The ten values that line 31 writes over the end of the ML channel, from the random
  source the call starts with: the normal draws before it leave the uniform stream
  untouched.
\<close>

definition injected :: "rng \<Rightarrow> real list" where
  "injected g = map (\<lambda>u. VIB_ML_LIMIT + (0.2 + (0.8 - 0.2) * u)) (fst (random_sample 10 g))"

subsection \<open>\<^verbatim>\<open>create_page_layout\<close>\<close>

text \<open>
  Of the page only what depends on the data is kept: the two traces of the third chart,
  the alarm banner with its two metrics, and the button. A metric is kept as the
  number the source computes and as the text it passes to \<^verbatim>\<open>st.metric\<close>
  (lines 110, 111 and 117).
\<close>

record alarm_metrics =
  current_vibration :: real
  above_limit :: real
  time_in_alarm :: nat
  metric_value :: string
  metric_delta :: string
  metric_hours :: string

record page_view =
  normal_trace :: "(nat \<times> real) list"
  alarm_trace :: "(nat \<times> real) list"
  alarm_banner :: "alarm_metrics option"
  button :: string

text \<open>Line 80: \<^verbatim>\<open>df['Vibration ML (mm/s)'] > VIB_ML_LIMIT\<close>.\<close>

definition flag_column :: "dataframe \<Rightarrow> bool list" where
  "flag_column df = map (\<lambda>x. x > VIB_ML_LIMIT) (vib_ml df)"

text \<open>Lines 104 and 117: \<^verbatim>\<open>df['Above_Threshold'].iloc[-10:]\<close>, its \<^verbatim>\<open>any()\<close> and \<^verbatim>\<open>sum()\<close>.\<close>

definition recent_flags :: "bool list \<Rightarrow> bool list" where
  "recent_flags flags = slice_last 10 flags"

definition create_page_layout :: "string \<Rightarrow> dataframe \<Rightarrow> error + (dataframe \<times> page_view)" where
  "create_page_layout selected_page df0 =
     (let flags = flag_column df0;
          df = df0\<lparr>above_threshold := Some flags\<rparr>;
          mask_normal = map Not flags;
          trace_n = zip (boolean_index mask_normal (date df)) (boolean_index mask_normal (vib_ml df));
          mask_alarm = flags;
          trace_a = zip (boolean_index mask_alarm (date df)) (boolean_index mask_alarm (vib_ml df));
          label = ''Analyze '' @ selected_page
      in if series_any (recent_flags flags) then
           (case iloc_last (vib_ml df) of
              Inl e \<Rightarrow> Inl e
            | Inr cur \<Rightarrow>
                Inr (df, \<lparr>normal_trace = trace_n, alarm_trace = trace_a,
                          alarm_banner =
                            Some \<lparr>current_vibration = cur,
                                  above_limit = cur - VIB_ML_LIMIT,
                                  time_in_alarm = series_sum (recent_flags flags),
                                  metric_value = format_2f cur @ '' mm/s'',
                                  metric_delta =
                                    format_2f (cur - VIB_ML_LIMIT) @ '' mm/s above limit'',
                                  metric_hours =
                                    decimal (series_sum (recent_flags flags)) @ '' hours''\<rparr>,
                          button = label\<rparr>))
         else
           Inr (df, \<lparr>normal_trace = trace_n, alarm_trace = trace_a,
                     alarm_banner = None, button = label\<rparr>))"

subsection \<open>The script\<close>

text \<open>
  Lines 44 to 48 and 125 to 126: the page is chosen in the sidebar, the data is
  generated, the title is the chosen page and the layout is drawn.
\<close>

definition pages :: "string list" where
  "pages = [''Motor 1'', ''Conveyor 1'', ''Motor 2'']"

record app_run =
  title :: string
  frame :: dataframe
  layout :: page_view

definition app :: "string \<Rightarrow> rng \<Rightarrow> error + (app_run \<times> rng)" where
  "app selected_page g =
     (case generate_fake_data g of
        Inl e \<Rightarrow> Inl e
      | Inr (df, g') \<Rightarrow>
          (case create_page_layout selected_page df of
             Inl e \<Rightarrow> Inl e
           | Inr (df', v) \<Rightarrow> Inr (\<lparr>title = selected_page, frame = df', layout = v\<rparr>, g')))"

subsection \<open>Sample inputs\<close>

text \<open>
  A frame whose last ten readings are the values of the test scenario, a frame that
  never exceeds the limit (it touches it three times), a frame shorter than the
  window, and a random source whose raw uniform draws alternate between 0 and 3/4.
\<close>

definition scenario_frame :: dataframe where
  "scenario_frame =
     \<lparr>date = [0..<11], temperature = replicate 11 45, vib_iso = replicate 11 4.5,
      vib_ml = [3.8, 5.1, 5.3, 4.9, 5.5, 5.0, 5.2, 4.95, 5.6, 5.05, 5.4],
      above_threshold = None\<rparr>"

definition quiet_frame :: dataframe where
  "quiet_frame =
     \<lparr>date = [0..<12], temperature = replicate 12 45, vib_iso = replicate 12 4.5,
      vib_ml = [3.8, 4.1, 5.0, 4.9, 3.0, 5.0, 4.2, 4.95, 3.6, 4.05, 4.4, 5.0],
      above_threshold = None\<rparr>"

definition short_frame :: dataframe where
  "short_frame =
     \<lparr>date = [0..<3], temperature = replicate 3 45, vib_iso = replicate 3 4.5,
      vib_ml = [4.0, 5.5, 4.2], above_threshold = None\<rparr>"

definition demo_rng :: rng where
  "demo_rng = \<lparr>normals = (\<lambda>k. if even k then 12 else - 12),
               uniforms = (\<lambda>k. if even k then 0 else 3 / 4), n_pos = 0, u_pos = 0\<rparr>"

section \<open>Auxiliary facts\<close>

subsection \<open>The library operations\<close>

declare decimal.simps [simp del]

lemma decimal_digit: "n < 10 \<Longrightarrow> decimal n = [digit_char n]"
  by (subst decimal.simps) simp

lemma decimal_more: "10 \<le> n \<Longrightarrow> decimal n = decimal (n div 10) @ [digit_char (n mod 10)]"
  by (subst decimal.simps) simp

lemmas format_eval =
  format_2f_def round_half_even_def decimal_digit decimal_more digit_char_def Let_def

text \<open>Rounding to hundredths does not see an error of less than half a hundredth.\<close>

lemma round_half_even_near:
  assumes "\<bar>y - of_int k\<bar> < 1 / 2"
  shows "round_half_even y = k"
proof (cases "of_int k \<le> y")
  case True
  with assms have "\<lfloor>y\<rfloor> = k"
    by (intro floor_unique) auto
  with assms True show ?thesis
    by (simp add: round_half_even_def)
next
  case False
  with assms have "\<lfloor>y\<rfloor> = k - 1"
    by (intro floor_unique) auto
  with assms False show ?thesis
    by (simp add: round_half_even_def)
qed

lemma format_2f_near:
  assumes "\<bar>x - 2 / 5\<bar> < 1 / 200"
  shows "format_2f x = ''0.40''"
proof -
  from assms have pos: "0 \<le> x" by linarith
  then have ax: "\<bar>x\<bar> = x" by simp
  from assms have "\<bar>x * 100 - 40\<bar> < 1 / 2" by linarith
  then have "\<bar>x * 100 - of_int 40\<bar> < 1 / 2" by simp
  then have "round_half_even (\<bar>x\<bar> * 100) = 40"
    unfolding ax by (rule round_half_even_near)
  with pos show ?thesis
    by (simp add: format_2f_def decimal_digit digit_char_def)
qed

lemma length_dates:
  "date_range (midnight_jan_2023 1) (midnight_jan_2023 31) = [0..<721]"
  by (simp add: date_range_def midnight_jan_2023_def)

lemma random_normal_length: "length (fst (random_normal loc scale n g)) = n"
  by (simp add: random_normal_def standard_normal_def)

lemma random_normal_uniforms:
  "uniforms (snd (random_normal loc scale n g)) = uniforms g \<and> u_pos (snd (random_normal loc scale n g)) = u_pos g"
  by (simp add: random_normal_def standard_normal_def)

lemma random_sample_normal:
  "fst (random_sample m (snd (random_normal loc scale n g))) = fst (random_sample m g)"
  by (simp add: random_sample_def random_normal_uniforms)

lemma random_uniform_fst:
  "fst (random_uniform low high n g) = map (\<lambda>u. low + (high - low) * u) (fst (random_sample n g))"
  by (simp add: random_uniform_def split: prod.splits)

lemma random_sample_length: "length (fst (random_sample n g)) = n"
  by (simp add: random_sample_def)

lemma assign_last_same:
  "length vs = k \<Longrightarrow> k \<le> length xs \<Longrightarrow> assign_last k xs vs = Inr (take (length xs - k) xs @ vs)"
  by (simp add: assign_last_def slice_last_def slice_but_last_def)

lemma generate_explicit:
  "\<exists>tmp iso body g'.
     generate_fake_data g =
       Inr (\<lparr>date = [0..<721], temperature = tmp, vib_iso = np_clip iso 3.5 6.5,
             vib_ml = np_clip body 3.0 4.8
                        @ map (\<lambda>u. VIB_ML_LIMIT + (0.2 + (0.8 - 0.2) * u)) (fst (random_sample 10 g)),
             above_threshold = None\<rparr>, g')
     \<and> length tmp = 721 \<and> length iso = 721 \<and> length body = 711"
proof -
  obtain nt g1 where r1: "random_normal 0 2 721 g = (nt, g1)" by (cases "random_normal 0 2 721 g")
  obtain ni g2 where r2: "random_normal 0 0.3 721 g1 = (ni, g2)" by (cases "random_normal 0 0.3 721 g1")
  obtain nm g3 where r3: "random_normal 0 0.25 721 g2 = (nm, g3)" by (cases "random_normal 0 0.25 721 g2")
  obtain ex g4 where r4: "random_uniform 0.2 0.8 10 g3 = (ex, g4)" by (cases "random_uniform 0.2 0.8 10 g3")
  have l1: "length nt = 721" using random_normal_length[of 0 2 721 g] r1 by simp
  have l2: "length ni = 721" using random_normal_length[of 0 "0.3" 721 g1] r2 by simp
  have l3: "length nm = 721" using random_normal_length[of 0 "0.25" 721 g2] r3 by simp
  have s1: "fst (random_sample 10 g1) = fst (random_sample 10 g)"
    using random_sample_normal[of 10 0 2 721 g] r1 by simp
  have s2: "fst (random_sample 10 g2) = fst (random_sample 10 g1)"
    using random_sample_normal[of 10 0 "0.3" 721 g1] r2 by simp
  have s3: "fst (random_sample 10 g3) = fst (random_sample 10 g2)"
    using random_sample_normal[of 10 0 "0.25" 721 g2] r3 by simp
  have ex: "ex = map (\<lambda>u. 0.2 + (0.8 - 0.2) * u) (fst (random_sample 10 g))"
    using random_uniform_fst[of "0.2" "0.8" 10 g3] r4 s1 s2 s3 by simp
  have lex: "length ex = 10" by (simp add: ex random_sample_length)
  define ml1 where "ml1 = map2 (+) (map (\<lambda>x. 3.8 * x) (ones 721)) nm"
  have lml1: "length ml1 = 721" by (simp add: ml1_def ones_def l3)
  define tail where "tail = map (\<lambda>u. VIB_ML_LIMIT + u) ex"
  have ltail: "length tail = 10" by (simp add: tail_def lex)
  have a1: "assign_last 10 ml1 tail = Inr (take 711 ml1 @ tail)"
    using assign_last_same[of tail 10 ml1] by (simp add: lml1 ltail)
  have sb: "slice_but_last 10 (take 711 ml1 @ tail) = take 711 ml1"
    by (simp add: slice_but_last_def lml1 ltail)
  have sl: "slice_last 10 (take 711 ml1 @ tail) = tail"
    by (simp add: slice_last_def lml1 ltail)
  have a2: "assign_but_last 10 (take 711 ml1 @ tail) (np_clip (take 711 ml1) 3.0 4.8)
              = Inr (np_clip (take 711 ml1) 3.0 4.8 @ tail)"
    by (simp add: assign_but_last_def sb sl np_clip_def lml1)
  have "generate_fake_data g =
          Inr (\<lparr>date = [0..<721],
                temperature = map2 (+) (map (\<lambda>i. 45 + 5 * sin (i * 2 * pi / 24)) (arange 721)) nt,
                vib_iso = np_clip (map2 (+) (map (\<lambda>x. 4.5 * x) (ones 721)) ni) 3.5 6.5,
                vib_ml = np_clip (take 711 ml1) 3.0 4.8 @ tail, above_threshold = None\<rparr>, g4)"
    unfolding generate_fake_data_def length_dates Let_def length_upt diff_zero
      r1 r2 r3 r4 prod.case a1[unfolded ml1_def tail_def] sum.case
      sb[unfolded ml1_def tail_def] a2[unfolded ml1_def tail_def]
    by (simp only: ml1_def tail_def)
  moreover have "tail = map (\<lambda>u. VIB_ML_LIMIT + (0.2 + (0.8 - 0.2) * u)) (fst (random_sample 10 g))"
    by (simp add: tail_def ex)
  moreover have "length (map2 (+) (map (\<lambda>i. 45 + 5 * sin (i * 2 * pi / 24)) (arange 721)) nt) = 721"
    by (simp add: arange_def l1)
  moreover have "length (map2 (+) (map (\<lambda>x. 4.5 * x) (ones 721)) ni) = 721"
    by (simp add: ones_def l2)
  moreover have "length (take 711 ml1) = 711" by (simp add: lml1)
  ultimately show ?thesis by blast
qed

lemma slice_last_length: "length (slice_last k xs) = min k (length xs)"
  by (simp add: slice_last_def)

lemma slice_last_short: "length xs \<le> k \<Longrightarrow> slice_last k xs = xs"
  by (simp add: slice_last_def)

lemma slice_last_append: "length ys = k \<Longrightarrow> slice_last k (xs @ ys) = ys"
  by (simp add: slice_last_def)

lemma slice_but_last_append: "length ys = k \<Longrightarrow> slice_but_last k (xs @ ys) = xs"
  by (simp add: slice_but_last_def)

lemma series_any_iff: "series_any bs = (True \<in> set bs)"
  by (auto simp: series_any_def list_ex_iff)

lemma flag_column_length: "length (flag_column df) = length (vib_ml df)"
  by (simp add: flag_column_def)

lemma recent_nonempty: "series_any (recent_flags (flag_column df)) \<Longrightarrow> vib_ml df \<noteq> []"
  by (auto simp: series_any_iff recent_flags_def slice_last_def flag_column_def)

lemma create_page_layout_eq:
  "create_page_layout p df =
     Inr (df\<lparr>above_threshold := Some (flag_column df)\<rparr>,
          \<lparr>normal_trace = zip (boolean_index (map Not (flag_column df)) (date df))
                                (boolean_index (map Not (flag_column df)) (vib_ml df)),
            alarm_trace = zip (boolean_index (flag_column df) (date df))
                               (boolean_index (flag_column df) (vib_ml df)),
            alarm_banner =
              (if series_any (recent_flags (flag_column df))
               then Some \<lparr>current_vibration = last (vib_ml df),
                          above_limit = last (vib_ml df) - VIB_ML_LIMIT,
                          time_in_alarm = series_sum (recent_flags (flag_column df)),
                          metric_value = format_2f (last (vib_ml df)) @ '' mm/s'',
                          metric_delta =
                            format_2f (last (vib_ml df) - VIB_ML_LIMIT) @ '' mm/s above limit'',
                          metric_hours =
                            decimal (series_sum (recent_flags (flag_column df))) @ '' hours''\<rparr>
               else None),
            button = ''Analyze '' @ p\<rparr>)"
proof (cases "series_any (recent_flags (flag_column df))")
  case True
  then have "vib_ml df \<noteq> []" by (rule recent_nonempty)
  with True show ?thesis
    by (simp add: create_page_layout_def Let_def iloc_last_def)
next
  case False
  then show ?thesis
    by (simp add: create_page_layout_def Let_def)
qed

lemma flag_column_update [simp]:
  "flag_column (df\<lparr>above_threshold := a\<rparr>) = flag_column df"
  by (simp add: flag_column_def)

lemma np_clip_bounds:
  "a_min \<le> a_max \<Longrightarrow> list_all (\<lambda>x. a_min \<le> x \<and> x \<le> a_max) (np_clip xs a_min a_max)"
  by (simp add: np_clip_def list_all_iff)

lemma np_clip_length: "length (np_clip xs a_min a_max) = length xs"
  by (simp add: np_clip_def)

lemma demo_rng_ok: "next_uniforms_ok 10 demo_rng"
  by (auto simp: next_uniforms_ok_def random_sample_def demo_rng_def unit_draw_def list_all_iff)

subsection \<open>What the generator returns\<close>

text \<open>
  The generator never raises. Its frame has 721 rows; the ISO channel is a clipped
  array; the ML channel is a clipped body of 711 readings followed by the ten
  injected readings, each the limit plus a scaled raw uniform draw.
\<close>

lemma injected_length: "length (injected g) = 10"
  by (simp add: injected_def random_sample_length)

lemma generate_shape:
  "\<exists>df g' iso body.
     generate_fake_data g = Inr (df, g')
     \<and> date df = [0..<721] \<and> length (temperature df) = 721
     \<and> vib_iso df = np_clip iso 3.5 6.5 \<and> length iso = 721
     \<and> vib_ml df = np_clip body 3.0 4.8 @ injected g \<and> length body = 711
     \<and> above_threshold df = None"
proof -
  from generate_explicit [of g] obtain tmp iso body g' where
    gen: "generate_fake_data g =
       Inr (\<lparr>date = [0..<721], temperature = tmp, vib_iso = np_clip iso 3.5 6.5,
             vib_ml = np_clip body 3.0 4.8
                        @ map (\<lambda>u. VIB_ML_LIMIT + (0.2 + (0.8 - 0.2) * u)) (fst (random_sample 10 g)),
             above_threshold = None\<rparr>, g')"
    and len: "length tmp = 721" "length iso = 721" "length body = 711"
    by blast
  show ?thesis
    unfolding gen injected_def using len by auto
qed

lemma injected_above_limit:
  assumes "next_uniforms_ok 10 g"
  shows "list_all (\<lambda>x. VIB_ML_LIMIT < x \<and> 0.2 \<le> x - VIB_ML_LIMIT \<and> x - VIB_ML_LIMIT \<le> 0.8)
           (injected g)"
  using assms by (auto simp: injected_def next_uniforms_ok_def list_all_iff unit_draw_def)

lemma all_flagged:
  "list_all (\<lambda>x. VIB_ML_LIMIT < x) xs \<Longrightarrow> map (\<lambda>x. x > VIB_ML_LIMIT) xs = replicate (length xs) True"
  by (induction xs) auto

section \<open>Specified properties\<close>

text \<open>
  C1. A series whose last ten ML vibration readings are 5.1, 5.3, 4.9, 5.5, 5.0, 5.2,
  4.95, 5.6, 5.05, 5.4 gets, with the limit 5.0, the flags T T F T F T F T T T over
  those ten samples; the alarm banner is shown, the current reading is 5.4, and the
  page prints 5.40 for it, 0.40 for its distance above the limit and 7 for the hours
  in alarm. The printed distance is the two-decimal rendering of the last reading
  minus the limit, and it is the same for every value within half a hundredth of
  0.4, such as the difference of the doubles 5.4 and 5.0.
\<close>

theorem fixed_tail_scenario:
  assumes "vib_ml df = pre @ [5.1, 5.3, 4.9, 5.5, 5.0, 5.2, 4.95, 5.6, 5.05, 5.4]"
  shows "\<exists>df' v m. create_page_layout p df = Inr (df', v)
           \<and> above_threshold df' = Some (flag_column df)
           \<and> slice_last 10 (flag_column df)
               = [True, True, False, True, False, True, False, True, True, True]
           \<and> alarm_banner v = Some m
           \<and> current_vibration m = 5.4
           \<and> metric_value m = ''5.40 mm/s''
           \<and> metric_delta m
               = format_2f (current_vibration m - VIB_ML_LIMIT) @ '' mm/s above limit''
           \<and> metric_delta m = ''0.40 mm/s above limit''
           \<and> (\<forall>d. \<bar>d - 2 / 5\<bar> < 1 / 200
                 \<longrightarrow> format_2f d @ '' mm/s above limit'' = metric_delta m)
           \<and> time_in_alarm m = 7
           \<and> metric_hours m = ''7 hours''"
proof -
  define m where "m =
    \<lparr>current_vibration = last (vib_ml df),
     above_limit = last (vib_ml df) - VIB_ML_LIMIT,
     time_in_alarm = series_sum (recent_flags (flag_column df)),
     metric_value = format_2f (last (vib_ml df)) @ '' mm/s'',
     metric_delta = format_2f (last (vib_ml df) - VIB_ML_LIMIT) @ '' mm/s above limit'',
     metric_hours = decimal (series_sum (recent_flags (flag_column df))) @ '' hours''\<rparr>"
  have fl: "slice_last 10 (flag_column df)
              = [True, True, False, True, False, True, False, True, True, True]"
    by (simp add: flag_column_def assms slice_last_def VIB_ML_LIMIT_def)
  have la: "last (vib_ml df) = 5.4"
    by (simp add: assms)
  have any: "series_any (recent_flags (flag_column df))"
    by (simp add: recent_flags_def fl series_any_iff)
  have count: "series_sum (recent_flags (flag_column df)) = 7"
    by (simp add: recent_flags_def fl series_sum_def)
  have shown: "format_2f (last (vib_ml df)) = ''5.40''"
    by (simp add: assms format_eval)
  have delta: "format_2f (last (vib_ml df) - VIB_ML_LIMIT) = ''0.40''"
    by (simp add: assms VIB_ML_LIMIT_def format_eval)
  have hours: "decimal (series_sum (recent_flags (flag_column df))) = ''7''"
    unfolding count by (simp add: format_eval)
  obtain df' v where run: "create_page_layout p df = Inr (df', v)"
    and col: "above_threshold df' = Some (flag_column df)"
    and banner: "alarm_banner v = Some m"
    using any by (simp add: create_page_layout_eq m_def)
  have cur: "current_vibration m = 5.4"
    by (simp add: m_def la)
  have mv: "metric_value m = ''5.40 mm/s''"
    by (simp add: m_def shown)
  have md: "metric_delta m = format_2f (current_vibration m - VIB_ML_LIMIT) @ '' mm/s above limit''"
    by (simp add: m_def)
  have md': "metric_delta m = ''0.40 mm/s above limit''"
    by (simp add: m_def delta)
  have near: "\<forall>d. \<bar>d - 2 / 5\<bar> < 1 / 200
                \<longrightarrow> format_2f d @ '' mm/s above limit'' = metric_delta m"
  proof (intro allI impI)
    fix d :: real
    assume "\<bar>d - 2 / 5\<bar> < 1 / 200"
    then have "format_2f d = ''0.40''"
      by (rule format_2f_near)
    then show "format_2f d @ '' mm/s above limit'' = metric_delta m"
      by (simp add: md')
  qed
  have ta: "time_in_alarm m = 7"
    by (simp add: m_def count)
  have mh: "metric_hours m = ''7 hours''"
    by (simp add: m_def hours)
  from run col fl banner cur mv md md' near ta mh show ?thesis
    by blast
qed

theorem fixed_tail_scenario_witness:
  "vib_ml scenario_frame = [3.8] @ [5.1, 5.3, 4.9, 5.5, 5.0, 5.2, 4.95, 5.6, 5.05, 5.4]
   \<and> \<bar>450359962737050 / 1125899906842624 - 2 / 5\<bar> < (1 / 200 :: real)
   \<and> (\<exists>df' v m. create_page_layout ''Motor 1'' scenario_frame = Inr (df', v)
         \<and> alarm_banner v = Some m
         \<and> metric_value m = ''5.40 mm/s''
         \<and> metric_delta m = ''0.40 mm/s above limit''
         \<and> format_2f (450359962737050 / 1125899906842624) @ '' mm/s above limit''
             = metric_delta m
         \<and> time_in_alarm m = 7)"
proof -
  have h: "vib_ml scenario_frame = [3.8] @ [5.1, 5.3, 4.9, 5.5, 5.0, 5.2, 4.95, 5.6, 5.05, 5.4]"
    by (simp add: scenario_frame_def)
  have d: "\<bar>450359962737050 / 1125899906842624 - 2 / 5\<bar> < (1 / 200 :: real)"
    by simp
  from fixed_tail_scenario [OF h, of "''Motor 1''"] h d show ?thesis
    by blast
qed

text \<open>
  C2. Whatever the random source, the generator returns a frame whose last ten ML
  vibration readings are the limit 5.0 plus \<open>0.2 + (0.8 - 0.2) * u\<close>, one raw uniform
  draw \<open>u\<close> per sample; when the raw draws lie in \<open>[0, 1)\<close>, each of the ten readings
  is strictly above the limit, by at least 0.2 and at most 0.8.
\<close>

theorem tail_is_limit_plus_uniform:
  assumes "next_uniforms_ok 10 g"
  shows "\<exists>df g'. generate_fake_data g = Inr (df, g')
           \<and> slice_last 10 (vib_ml df)
               = map (\<lambda>u. VIB_ML_LIMIT + (0.2 + (0.8 - 0.2) * u)) (fst (random_sample 10 g))
           \<and> length (slice_last 10 (vib_ml df)) = 10
           \<and> list_all (\<lambda>x. VIB_ML_LIMIT < x \<and> 0.2 \<le> x - VIB_ML_LIMIT \<and> x - VIB_ML_LIMIT \<le> 0.8)
                (slice_last 10 (vib_ml df))"
proof -
  from generate_shape [of g] obtain df g' body where
    gen: "generate_fake_data g = Inr (df, g')"
    and ml: "vib_ml df = np_clip body 3.0 4.8 @ injected g"
    by blast
  have tail: "slice_last 10 (vib_ml df) = injected g"
    unfolding ml by (rule slice_last_append) (rule injected_length)
  have len: "length (slice_last 10 (vib_ml df)) = 10"
    unfolding tail by (rule injected_length)
  have bounds: "list_all (\<lambda>x. VIB_ML_LIMIT < x \<and> 0.2 \<le> x - VIB_ML_LIMIT \<and> x - VIB_ML_LIMIT \<le> 0.8)
                  (slice_last 10 (vib_ml df))"
    unfolding tail by (rule injected_above_limit [OF assms])
  from gen tail [unfolded injected_def] len bounds show ?thesis
    by blast
qed

theorem tail_is_limit_plus_uniform_witness:
  "next_uniforms_ok 10 demo_rng
   \<and> (\<exists>df g'. generate_fake_data demo_rng = Inr (df, g')
         \<and> slice_last 10 (vib_ml df) = [5.2, 5.65, 5.2, 5.65, 5.2, 5.65, 5.2, 5.65, 5.2, 5.65])"
proof -
  have u: "fst (random_sample 10 demo_rng) = [0, 3 / 4, 0, 3 / 4, 0, 3 / 4, 0, 3 / 4, 0, 3 / 4]"
    by (simp add: random_sample_def demo_rng_def upt_rec)
  from tail_is_limit_plus_uniform [OF demo_rng_ok] show ?thesis
    by (auto simp: u VIB_ML_LIMIT_def demo_rng_ok)
qed

text \<open>
  C3. For every series the layout returns, and the alarm banner is shown exactly when
  one of the flags of the last ten samples is true. When no ML vibration reading is
  above the limit, no banner is shown and the count of flagged samples in the window
  is 0.
\<close>

theorem alarm_iff_recent_breach:
  "\<exists>df' v. create_page_layout p df = Inr (df', v)
     \<and> above_threshold df' = Some (flag_column df)
     \<and> (alarm_banner v \<noteq> None) = (True \<in> set (slice_last 10 (flag_column df)))
     \<and> (list_all (\<lambda>x. x \<le> VIB_ML_LIMIT) (vib_ml df)
          \<longrightarrow> alarm_banner v = None \<and> series_sum (slice_last 10 (flag_column df)) = 0)"
proof -
  have quiet: "series_sum (slice_last 10 (flag_column df)) = 0
                 \<and> True \<notin> set (slice_last 10 (flag_column df))"
    if "list_all (\<lambda>x. x \<le> VIB_ML_LIMIT) (vib_ml df)"
  proof -
    from that have "True \<notin> set (flag_column df)"
      by (auto simp: flag_column_def list_all_iff)
    then have "True \<notin> set (slice_last 10 (flag_column df))"
      unfolding slice_last_def by (meson in_set_dropD)
    then show ?thesis
      by (auto simp: series_sum_def filter_empty_conv)
  qed
  then show ?thesis
    by (auto simp: create_page_layout_eq recent_flags_def series_any_iff)
qed

theorem alarm_iff_recent_breach_witness:
  "list_all (\<lambda>x. x \<le> VIB_ML_LIMIT) (vib_ml quiet_frame)
   \<and> (\<exists>df' v. create_page_layout ''Motor 2'' quiet_frame = Inr (df', v)
         \<and> alarm_banner v = None
         \<and> series_sum (slice_last 10 (flag_column quiet_frame)) = 0)"
proof -
  have h: "list_all (\<lambda>x. x \<le> VIB_ML_LIMIT) (vib_ml quiet_frame)"
    by (simp add: quiet_frame_def VIB_ML_LIMIT_def)
  from alarm_iff_recent_breach [of "''Motor 2''" quiet_frame] h show ?thesis by blast
qed

text \<open>
  C4. The flag column that the layout stores in the frame has one flag per reading,
  and the flag of sample \<open>i\<close> is the strict comparison of reading \<open>i\<close> with the limit:
  a reading equal to the limit is not flagged.
\<close>

theorem flag_is_strict_comparison:
  "\<exists>df' v. create_page_layout p df = Inr (df', v)
     \<and> above_threshold df' = Some (flag_column df)
     \<and> length (flag_column df) = length (vib_ml df)
     \<and> (\<forall>i < length (vib_ml df).
          flag_column df ! i = (vib_ml df ! i > VIB_ML_LIMIT)
          \<and> (vib_ml df ! i = VIB_ML_LIMIT \<longrightarrow> \<not> flag_column df ! i))"
  by (simp add: create_page_layout_eq flag_column_def)

theorem flag_is_strict_comparison_witness:
  "5 < length (vib_ml scenario_frame) \<and> vib_ml scenario_frame ! 5 = VIB_ML_LIMIT
   \<and> \<not> flag_column scenario_frame ! 5
   \<and> 4 < length (vib_ml scenario_frame) \<and> vib_ml scenario_frame ! 4 > VIB_ML_LIMIT
   \<and> flag_column scenario_frame ! 4"
proof -
  have h: "5 < length (vib_ml scenario_frame) \<and> vib_ml scenario_frame ! 5 = VIB_ML_LIMIT
            \<and> 4 < length (vib_ml scenario_frame) \<and> vib_ml scenario_frame ! 4 > VIB_ML_LIMIT"
    by (simp add: scenario_frame_def VIB_ML_LIMIT_def)
  from flag_is_strict_comparison [of "''Motor 1''" scenario_frame] h show ?thesis by blast
qed

text \<open>
  C5. Whatever the random source, the generator returns a frame over the hourly stamps
  from 2023-01-01 00:00 to 2023-01-31 00:00, both included: 721 samples, in each of
  the four columns.
\<close>

theorem series_has_721_samples:
  "\<exists>df g'. generate_fake_data g = Inr (df, g')
     \<and> date df = date_range (midnight_jan_2023 1) (midnight_jan_2023 31)
     \<and> length (date df) = 721
     \<and> length (date df) = midnight_jan_2023 31 - midnight_jan_2023 1 + 1
     \<and> length (temperature df) = 721 \<and> length (vib_iso df) = 721 \<and> length (vib_ml df) = 721"
proof -
  from generate_shape [of g] obtain df g' iso body where
    gen: "generate_fake_data g = Inr (df, g')"
    and cols: "date df = [0..<721]" "length (temperature df) = 721"
      "vib_iso df = np_clip iso 3.5 6.5" "length iso = 721"
      "vib_ml df = np_clip body 3.0 4.8 @ injected g" "length body = 711"
    by blast
  have steps: "midnight_jan_2023 31 - midnight_jan_2023 1 + 1 = 721"
    by (simp add: midnight_jan_2023_def)
  have dates: "date df = date_range (midnight_jan_2023 1) (midnight_jan_2023 31)"
    by (simp only: cols(1) length_dates)
  have lens: "length (date df) = 721" "length (vib_iso df) = 721" "length (vib_ml df) = 721"
    by (simp_all add: cols np_clip_length injected_length)
  have "length (date df) = midnight_jan_2023 31 - midnight_jan_2023 1 + 1"
    by (simp only: lens(1) steps)
  with gen dates lens cols(2) show ?thesis
    by blast
qed

text \<open>
  C6. Whatever the random source, every ISO vibration value of the generated frame
  lies in \<open>[3.5, 6.5]\<close>, and every ML vibration value except the last ten lies in
  \<open>[3.0, 4.8]\<close>.
\<close>

theorem clipped_channels_in_range:
  "\<exists>df g'. generate_fake_data g = Inr (df, g')
     \<and> list_all (\<lambda>x. 3.5 \<le> x \<and> x \<le> 6.5) (vib_iso df)
     \<and> list_all (\<lambda>x. 3.0 \<le> x \<and> x \<le> 4.8) (slice_but_last 10 (vib_ml df))
     \<and> length (vib_iso df) = 721 \<and> length (slice_but_last 10 (vib_ml df)) = 711"
proof -
  from generate_shape [of g] obtain df g' iso body where
    gen: "generate_fake_data g = Inr (df, g')"
    and iso: "vib_iso df = np_clip iso 3.5 6.5" "length iso = 721"
    and ml: "vib_ml df = np_clip body 3.0 4.8 @ injected g" "length body = 711"
    by blast
  have head: "slice_but_last 10 (vib_ml df) = np_clip body 3.0 4.8"
    unfolding ml by (rule slice_but_last_append) (rule injected_length)
  have a: "list_all (\<lambda>x. 3.5 \<le> x \<and> x \<le> 6.5) (vib_iso df)"
    unfolding iso by (rule np_clip_bounds) simp
  have b: "list_all (\<lambda>x. 3.0 \<le> x \<and> x \<le> 4.8) (slice_but_last 10 (vib_ml df))"
    unfolding head by (rule np_clip_bounds) simp
  have c: "length (vib_iso df) = 721"
    by (simp add: iso np_clip_length)
  have d: "length (slice_but_last 10 (vib_ml df)) = 711"
    unfolding head by (simp add: ml(2) np_clip_length)
  from gen a b c d show ?thesis
    by blast
qed

text \<open>
  C7. The window of the last ten flags never has more entries than the series. For a
  series of fewer than ten samples it is the whole flag column, the layout returns
  without an error, and the banner and its count are those of the whole series.
\<close>

theorem short_series_window:
  "\<exists>df' v. create_page_layout p df = Inr (df', v)
     \<and> length (slice_last 10 (flag_column df)) = min 10 (length (vib_ml df))
     \<and> (length (vib_ml df) < 10 \<longrightarrow>
          slice_last 10 (flag_column df) = flag_column df
          \<and> alarm_banner v =
              (if True \<in> set (flag_column df)
               then Some \<lparr>current_vibration = last (vib_ml df),
                          above_limit = last (vib_ml df) - VIB_ML_LIMIT,
                          time_in_alarm = series_sum (flag_column df),
                          metric_value = format_2f (last (vib_ml df)) @ '' mm/s'',
                          metric_delta =
                            format_2f (last (vib_ml df) - VIB_ML_LIMIT) @ '' mm/s above limit'',
                          metric_hours = decimal (series_sum (flag_column df)) @ '' hours''\<rparr>
               else None))"
proof -
  have "slice_last 10 (flag_column df) = flag_column df" if "length (vib_ml df) < 10"
    using that by (simp add: slice_last_short flag_column_length)
  then show ?thesis
    by (simp add: create_page_layout_eq recent_flags_def series_any_iff slice_last_length
        flag_column_length)
qed

theorem short_series_window_witness:
  "length (vib_ml short_frame) < 10
   \<and> (\<exists>df' v m. create_page_layout ''Conveyor 1'' short_frame = Inr (df', v)
         \<and> slice_last 10 (flag_column short_frame) = [False, True, False]
         \<and> alarm_banner v = Some m
         \<and> current_vibration m = 4.2
         \<and> metric_value m = ''4.20 mm/s''
         \<and> metric_delta m = ''-0.80 mm/s above limit''
         \<and> time_in_alarm m = 1
         \<and> metric_hours m = ''1 hours'')"
proof -
  have h: "length (vib_ml short_frame) < 10"
    by (simp add: short_frame_def)
  have f: "flag_column short_frame = [False, True, False]"
    by (simp add: flag_column_def short_frame_def VIB_ML_LIMIT_def)
  have l: "last (vib_ml short_frame) = 4.2"
    by (simp add: short_frame_def)
  have shown: "format_2f (last (vib_ml short_frame)) = ''4.20''"
    by (simp add: short_frame_def format_eval)
  have delta: "format_2f (last (vib_ml short_frame) - VIB_ML_LIMIT) = ''-0.80''"
    by (simp add: short_frame_def VIB_ML_LIMIT_def format_eval)
  have count: "series_sum (flag_column short_frame) = 1"
    by (simp add: f series_sum_def)
  have hours: "decimal (series_sum (flag_column short_frame)) = ''1''"
    unfolding count by (simp add: format_eval)
  have any: "True \<in> set (flag_column short_frame)"
    by (simp add: f)
  from short_series_window [of "''Conveyor 1''" short_frame] h obtain df' v where
    run: "create_page_layout ''Conveyor 1'' short_frame = Inr (df', v)"
    and win: "slice_last 10 (flag_column short_frame) = flag_column short_frame"
    and banner: "alarm_banner v =
      (if True \<in> set (flag_column short_frame)
       then Some \<lparr>current_vibration = last (vib_ml short_frame),
                  above_limit = last (vib_ml short_frame) - VIB_ML_LIMIT,
                  time_in_alarm = series_sum (flag_column short_frame),
                  metric_value = format_2f (last (vib_ml short_frame)) @ '' mm/s'',
                  metric_delta =
                    format_2f (last (vib_ml short_frame) - VIB_ML_LIMIT) @ '' mm/s above limit'',
                  metric_hours = decimal (series_sum (flag_column short_frame)) @ '' hours''\<rparr>
       else None)"
    by blast
  define m where "m =
    \<lparr>current_vibration = last (vib_ml short_frame),
     above_limit = last (vib_ml short_frame) - VIB_ML_LIMIT,
     time_in_alarm = series_sum (flag_column short_frame),
     metric_value = format_2f (last (vib_ml short_frame)) @ '' mm/s'',
     metric_delta = format_2f (last (vib_ml short_frame) - VIB_ML_LIMIT) @ '' mm/s above limit'',
     metric_hours = decimal (series_sum (flag_column short_frame)) @ '' hours''\<rparr>"
  have b: "alarm_banner v = Some m"
    unfolding banner m_def using any by simp
  have w: "slice_last 10 (flag_column short_frame) = [False, True, False]"
    using win by (simp only: f)
  have cur: "current_vibration m = 4.2"
    by (simp add: m_def l)
  have mv: "metric_value m = ''4.20 mm/s''"
    by (simp add: m_def shown)
  have md: "metric_delta m = ''-0.80 mm/s above limit''"
    by (simp add: m_def delta)
  have ta: "time_in_alarm m = 1"
    by (simp add: m_def count)
  have mh: "metric_hours m = ''1 hours''"
    by (simp add: m_def hours)
  from h run w b cur mv md ta mh show ?thesis
    by blast
qed

text \<open>
  C8. The layout changes the frame only by storing the flag column, which is computed
  from the readings alone. Run again on the frame it has returned, it returns the same
  frame and the same view: the same flags, banner, current reading, distance above
  the limit and count.
\<close>

theorem evaluation_idempotent:
  "\<exists>df' v. create_page_layout p df = Inr (df', v)
     \<and> create_page_layout p df' = Inr (df', v)
     \<and> flag_column df' = flag_column df"
  by (simp add: create_page_layout_eq)

text \<open>
  C9. Two runs of the script from the same random source, one for page \<open>p\<close> and one for
  page \<open>q\<close>, both return; they leave the same random source behind and show the same
  frame and the same banner. The second run differs from the first in the title and
  in the label of the button only.
\<close>

theorem page_has_no_effect_on_series:
  "\<exists>r1 r2 g'. app p g = Inr (r1, g') \<and> app q g = Inr (r2, g')
     \<and> frame r1 = frame r2
     \<and> alarm_banner (layout r1) = alarm_banner (layout r2)
     \<and> r2 = r1\<lparr>title := q, layout := (layout r1)\<lparr>button := ''Analyze '' @ q\<rparr>\<rparr>"
proof -
  from generate_shape [of g] obtain df g' where gen: "generate_fake_data g = Inr (df, g')"
    by blast
  show ?thesis
    by (simp add: app_def gen create_page_layout_eq)
qed

text \<open>
  C10. When the raw uniform draws lie in \<open>[0, 1)\<close>, every run of the script returns
  with the alarm banner shown and 10 hours in alarm: all ten flags of the window are
  true.
\<close>

theorem generated_series_always_alarms:
  assumes "next_uniforms_ok 10 g"
  shows "\<exists>r g'. app p g = Inr (r, g')
           \<and> slice_last 10 (flag_column (frame r)) = replicate 10 True
           \<and> (\<exists>m. alarm_banner (layout r) = Some m \<and> time_in_alarm m = 10)"
proof -
  from generate_shape [of g] obtain df g' body where
    gen: "generate_fake_data g = Inr (df, g')"
    and ml: "vib_ml df = np_clip body 3.0 4.8 @ injected g"
    by blast
  have "list_all (\<lambda>x. VIB_ML_LIMIT < x) (injected g)"
    using injected_above_limit [OF assms] by (auto simp: list_all_iff)
  then have "map (\<lambda>x. x > VIB_ML_LIMIT) (injected g) = replicate 10 True"
    using all_flagged [of "injected g"] by (simp add: injected_length)
  then have fl: "slice_last 10 (flag_column df) = replicate 10 True"
    unfolding flag_column_def ml map_append by (simp add: slice_last_append)
  have any: "series_any (recent_flags (flag_column df))"
    by (simp add: series_any_iff recent_flags_def fl)
  have count: "series_sum (recent_flags (flag_column df)) = 10"
    by (simp add: series_sum_def recent_flags_def fl)
  show ?thesis
    unfolding app_def gen
    by (simp add: create_page_layout_eq any count fl)
qed

theorem generated_series_always_alarms_witness:
  "next_uniforms_ok 10 demo_rng
   \<and> (\<exists>r g'. app ''Motor 1'' demo_rng = Inr (r, g')
         \<and> (\<exists>m. alarm_banner (layout r) = Some m \<and> time_in_alarm m = 10))"
  using generated_series_always_alarms [OF demo_rng_ok, of "''Motor 1''"] demo_rng_ok by blast

end
